theory Spec2Isabelle
  imports Complex_Main "HOL-Library.Word" "HOL-Library.AList"
begin

section \<open>JavaScript values\<close>

text \<open>
  A JavaScript string is a sequence of UTF-16 code units: \<open>length\<close> counts code units
  and \<open>substring\<close> cuts between them. String literals of the source that are not ASCII
  are written out as their code units.
\<close>

type_synonym js_string = "16 word list"

definition js :: "string \<Rightarrow> js_string" where
  "js s = map of_char s"

text \<open>
  The values that \<open>JSON.parse\<close> can produce, and \<open>undefined\<close>. An object is its list of
  own properties in insertion order. A number is the rational it denotes: the program
  never computes with one, it only tests it for zero and compares it with 150.
\<close>

datatype jv =
    JUndefined
  | JNull
  | JBool bool
  | JNum rat
  | JStr js_string
  | JArr "jv list"
  | JObj "(js_string \<times> jv) list"

datatype error = FetchFailed | TypeError | URIError

definition bindE :: "error + 'a \<Rightarrow> ('a \<Rightarrow> error + 'b) \<Rightarrow> error + 'b" where
  "bindE m f = (case m of Inl e \<Rightarrow> Inl e | Inr x \<Rightarrow> f x)"

text \<open>Truthiness (\<open>ToBoolean\<close>), and the operator \<open>a || b\<close> on values already evaluated.\<close>

fun truthy :: "jv \<Rightarrow> bool" where
  "truthy JUndefined = False"
| "truthy JNull = False"
| "truthy (JBool b) = b"
| "truthy (JNum r) = (r \<noteq> 0)"
| "truthy (JStr s) = (s \<noteq> [])"
| "truthy (JArr xs) = True"
| "truthy (JObj ps) = True"

definition js_or :: "jv \<Rightarrow> jv \<Rightarrow> jv" where
  "js_or a b = (if truthy a then a else b)"

text \<open>
  Reading a property. \<open>lookup\<close> reads an own property of an object; a missing one reads
  as \<open>undefined\<close>. An array index is a decimal numeral without a leading zero.
  A name that resolves to a method of a prototype (a function, which is no \<open>jv\<close>) reads
  as \<open>undefined\<close> here; the program reads no method as data, it only calls
  \<open>forEach\<close>, \<open>find\<close> and \<open>substring\<close>, modelled below.
\<close>

definition lookup :: "(js_string \<times> jv) list \<Rightarrow> js_string \<Rightarrow> jv" where
  "lookup ps k = (case map_of ps k of None \<Rightarrow> JUndefined | Some v \<Rightarrow> v)"

fun parse_digits :: "js_string \<Rightarrow> nat \<Rightarrow> nat option" where
  "parse_digits [] acc = Some acc"
| "parse_digits (c # cs) acc =
     (if 0x30 \<le> c \<and> c \<le> 0x39 then parse_digits cs (10 * acc + (unat c - 0x30)) else None)"

definition array_index :: "js_string \<Rightarrow> nat option" where
  "array_index k =
     (case k of
        [] \<Rightarrow> None
      | c # cs \<Rightarrow> if c = 0x30 \<and> cs \<noteq> [] then None else parse_digits k 0)"

definition nth_or_undefined :: "'a list \<Rightarrow> ('a \<Rightarrow> jv) \<Rightarrow> js_string \<Rightarrow> jv" where
  "nth_or_undefined xs f k =
     (case array_index k of
        None \<Rightarrow> JUndefined
      | Some i \<Rightarrow> if i < length xs then f (xs ! i) else JUndefined)"

fun own_get :: "jv \<Rightarrow> js_string \<Rightarrow> jv" where
  "own_get (JObj ps) k = lookup ps k"
| "own_get (JArr xs) k =
     (if k = js ''length'' then JNum (of_nat (length xs)) else nth_or_undefined xs id k)"
| "own_get (JStr s) k =
     (if k = js ''length'' then JNum (of_nat (length s)) else nth_or_undefined s (\<lambda>c. JStr [c]) k)"
| "own_get v k = JUndefined"

text \<open>A property read throws a \<open>TypeError\<close> on \<open>undefined\<close> and \<open>null\<close>.\<close>

definition nullish :: "jv \<Rightarrow> bool" where
  "nullish v = (v = JUndefined \<or> v = JNull)"

definition get_prop :: "jv \<Rightarrow> js_string \<Rightarrow> error + jv" where
  "get_prop v k = (if nullish v then Inl TypeError else Inr (own_get v k))"

text \<open>
  An object as \<open>Object.assign\<close> returns it: a plain object, or the object made from an
  array or a primitive (\<open>ToObject\<close>), which keeps the value and carries the assigned
  properties beside it.
\<close>

datatype js_object =
    Plain "(js_string \<times> jv) list"
  | Exotic jv "(js_string \<times> jv) list"

fun obj_get :: "js_object \<Rightarrow> js_string \<Rightarrow> jv" where
  "obj_get (Plain ps) k = lookup ps k"
| "obj_get (Exotic v ps) k = (case map_of ps k of None \<Rightarrow> own_get v k | Some x \<Rightarrow> x)"

text \<open>
  \<open>Object.assign(target, {ok: b})\<close>: throws on \<open>undefined\<close> and \<open>null\<close>; on an object it
  overwrites the property \<open>ok\<close> where it stands, or appends it.
\<close>

fun assign_ok :: "jv \<Rightarrow> bool \<Rightarrow> error + js_object" where
  "assign_ok JUndefined b = Inl TypeError"
| "assign_ok JNull b = Inl TypeError"
| "assign_ok (JObj ps) b = Inr (Plain (AList.update (js ''ok'') (JBool b) ps))"
| "assign_ok v b = Inr (Exotic v [(js ''ok'', JBool b)])"

section \<open>Transport: api.js, request\<close>

datatype http_method = GET | POST | PUT | DELETE

text \<open>
  The argument \<open>data\<close> of \<open>request\<close>: absent (\<open>null\<close>, the default), a value to serialise,
  or a \<open>FormData\<close>. The body sent is the JSON text of the value, or the form data as it is.
\<close>

datatype req_data = NoData | JsonData jv | FormData "(js_string \<times> js_string) list"

datatype req_body = JsonText jv | Multipart "(js_string \<times> js_string) list"

record fetch_opts =
  opt_method :: http_method
  opt_headers :: "(js_string \<times> js_string) list"
  opt_body :: "req_body option"

text \<open>
  What \<open>fetch\<close> gives back: a rejection (DNS or connection failure), or a response with
  its status and what \<open>res.json()\<close> makes of its body (\<open>None\<close>: the body is not JSON and
  \<open>res.json()\<close> rejects).
\<close>

datatype fetch_outcome = NetworkError | Response nat "jv option"

definition response_ok :: "nat \<Rightarrow> bool" where
  "response_ok st = (200 \<le> st \<and> st \<le> 299)"

text \<open>
  Lines 3 to 9. \<open>if(data)\<close> holds for a \<open>FormData\<close> and for a truthy value; the headers
  are listed in the order the code sets them.
\<close>

definition request_opts :: "http_method \<Rightarrow> req_data \<Rightarrow> fetch_opts" where
  "request_opts m d =
     (let opts = \<lparr>opt_method = m,
                  opt_headers = [(js ''Accept'', js ''application/json'')],
                  opt_body = None\<rparr>
      in case d of
           NoData \<Rightarrow> opts
         | JsonData v \<Rightarrow>
             if truthy v then
               opts\<lparr>opt_headers := opt_headers opts @ [(js ''Content-Type'', js ''application/json'')],
                    opt_body := Some (JsonText v)\<rparr>
             else opts
         | FormData es \<Rightarrow> opts\<lparr>opt_body := Some (Multipart es)\<rparr>)"

definition request_url :: "js_string \<Rightarrow> js_string" where
  "request_url path = js ''/api'' @ path"

text \<open>Lines 10 to 12: the awaited fetch, the parse with its fallback, the tag.\<close>

definition request_resolve :: "fetch_outcome \<Rightarrow> error + js_object" where
  "request_resolve out =
     (case out of
        NetworkError \<Rightarrow> Inl FetchFailed
      | Response st body \<Rightarrow>
          (let json = (case body of None \<Rightarrow> JObj [] | Some v \<Rightarrow> v)
           in if response_ok st then assign_ok json True else assign_ok json False))"

definition request ::
  "(js_string \<times> fetch_opts \<Rightarrow> fetch_outcome) \<Rightarrow> js_string \<Rightarrow> http_method \<Rightarrow> req_data \<Rightarrow> error + js_object" where
  "request fetch path m d = request_resolve (fetch (request_url path, request_opts m d))"

definition api_get :: "(js_string \<times> fetch_opts \<Rightarrow> fetch_outcome) \<Rightarrow> js_string \<Rightarrow> error + js_object" where
  "api_get fetch p = request fetch p GET NoData"

definition api_post ::
  "(js_string \<times> fetch_opts \<Rightarrow> fetch_outcome) \<Rightarrow> js_string \<Rightarrow> req_data \<Rightarrow> error + js_object" where
  "api_post fetch p d = request fetch p POST d"

definition api_put ::
  "(js_string \<times> fetch_opts \<Rightarrow> fetch_outcome) \<Rightarrow> js_string \<Rightarrow> req_data \<Rightarrow> error + js_object" where
  "api_put fetch p d = request fetch p PUT d"

definition api_del :: "(js_string \<times> fetch_opts \<Rightarrow> fetch_outcome) \<Rightarrow> js_string \<Rightarrow> error + js_object" where
  "api_del fetch p = request fetch p DELETE NoData"

section \<open>The built-in encodeURIComponent\<close>

text \<open>
  Every code unit outside the unreserved set is replaced by the percent-escapes of the
  UTF-8 bytes of its code point. A surrogate that is not half of a pair has no code
  point: the built-in throws a \<open>URIError\<close>.
\<close>

definition unreserved :: "16 word \<Rightarrow> bool" where
  "unreserved c =
     ((0x41 \<le> c \<and> c \<le> 0x5A) \<or> (0x61 \<le> c \<and> c \<le> 0x7A) \<or> (0x30 \<le> c \<and> c \<le> 0x39)
      \<or> c \<in> set [0x2D, 0x5F, 0x2E, 0x21, 0x7E, 0x2A, 0x27, 0x28, 0x29])"

definition is_lead :: "16 word \<Rightarrow> bool" where
  "is_lead c = (0xD800 \<le> c \<and> c \<le> 0xDBFF)"

definition is_trail :: "16 word \<Rightarrow> bool" where
  "is_trail c = (0xDC00 \<le> c \<and> c \<le> 0xDFFF)"

definition pair_code_point :: "16 word \<Rightarrow> 16 word \<Rightarrow> nat" where
  "pair_code_point c d = 0x10000 + (unat c - 0xD800) * 0x400 + (unat d - 0xDC00)"

definition utf8 :: "nat \<Rightarrow> nat list" where
  "utf8 cp =
     (if cp < 0x80 then [cp]
      else if cp < 0x800 then [0xC0 + cp div 0x40, 0x80 + cp mod 0x40]
      else if cp < 0x10000 then
        [0xE0 + cp div 0x1000, 0x80 + cp div 0x40 mod 0x40, 0x80 + cp mod 0x40]
      else
        [0xF0 + cp div 0x40000, 0x80 + cp div 0x1000 mod 0x40,
         0x80 + cp div 0x40 mod 0x40, 0x80 + cp mod 0x40])"

definition hex_digit :: "nat \<Rightarrow> 16 word" where
  "hex_digit d = of_nat (if d < 10 then 0x30 + d else 0x37 + d)"

definition percent :: "nat \<Rightarrow> js_string" where
  "percent b = [0x25, hex_digit (b div 16), hex_digit (b mod 16)]"

definition escape :: "nat \<Rightarrow> js_string" where
  "escape cp = concat (map percent (utf8 cp))"

fun encodeURIComponent :: "js_string \<Rightarrow> error + js_string" where
  "encodeURIComponent [] = Inr []"
| "encodeURIComponent [c] =
     (if unreserved c then Inr [c]
      else if is_lead c \<or> is_trail c then Inl URIError
      else Inr (escape (unat c)))"
| "encodeURIComponent (c # d # ds) =
     (if unreserved c then bindE (encodeURIComponent (d # ds)) (\<lambda>r. Inr (c # r))
      else if is_lead c then
        (if is_trail d then
           bindE (encodeURIComponent ds) (\<lambda>r. Inr (escape (pair_code_point c d) @ r))
         else Inl URIError)
      else if is_trail c then Inl URIError
      else bindE (encodeURIComponent (d # ds)) (\<lambda>r. Inr (escape (unat c) @ r)))"

text \<open>A string every surrogate of which is half of a pair.\<close>

fun well_formed :: "js_string \<Rightarrow> bool" where
  "well_formed [] = True"
| "well_formed [c] = (\<not> is_lead c \<and> \<not> is_trail c)"
| "well_formed (c # d # ds) =
     (if is_lead c then is_trail d \<and> well_formed ds
      else \<not> is_trail c \<and> well_formed (d # ds))"

section \<open>Notification: api.js, showToast\<close>

text \<open>
  What a handler does beside changing its own state, in the order it does it:
  \<open>showToast(msg)\<close> with the value given as the text, and the calls of the loaders
  (not awaited: each runs on as its own task).
\<close>

datatype effect = Toast jv | LoadCart | LoadNotes js_string

section \<open>CatalogController: api.js, the DOMContentLoaded handler\<close>

text \<open>The expression \<open>q ? `?q=${encodeURIComponent(q)}` : ''\<close> of both list loaders.\<close>

definition query_suffix :: "js_string \<Rightarrow> error + js_string" where
  "query_suffix q =
     (if q \<noteq> [] then bindE (encodeURIComponent q) (\<lambda>e. Inr (js ''?q='' @ e)) else Inr [])"

text \<open>
  An async function is one definition up to its \<open>await\<close> (what it hands to \<open>fetch\<close>, or
  the exception that ends it before) and one from there on (what it does with the
  Result).
\<close>

definition loadProducts_request :: "js_string \<Rightarrow> error + js_string \<times> fetch_opts" where
  "loadProducts_request q =
     bindE (query_suffix q) (\<lambda>s. Inr (request_url (js ''/products'' @ s), request_opts GET NoData))"

text \<open>
  A rendered element is the values its template interpolates, in the order the template
  reads them; the markup around them is constant.
\<close>

record product_el =
  el_name :: jv
  el_category :: jv
  el_description :: jv
  el_price :: jv
  el_id :: jv

definition render_product :: "jv \<Rightarrow> error + product_el" where
  "render_product p =
     bindE (get_prop p (js ''name'')) (\<lambda>name.
       Inr \<lparr>el_name = name,
            el_category = js_or (own_get p (js ''category'')) (JStr []),
            el_description = js_or (own_get p (js ''description'')) (JStr []),
            el_price = own_get p (js ''price''),
            el_id = own_get p (js ''id'')\<rparr>)"

text \<open>
  \<open>xs.forEach(f)\<close> where \<open>f\<close> appends one element to a container: the children so far,
  and the exception that stopped the loop if there is one. Only an array has the method.
\<close>

fun for_each :: "(jv \<Rightarrow> error + 'el) \<Rightarrow> jv list \<Rightarrow> 'el list \<Rightarrow> 'el list \<times> error option" where
  "for_each f [] acc = (acc, None)"
| "for_each f (x # xs) acc =
     (case f x of Inl e \<Rightarrow> (acc, Some e) | Inr el \<Rightarrow> for_each f xs (acc @ [el]))"

definition js_forEach :: "(jv \<Rightarrow> error + 'el) \<Rightarrow> jv \<Rightarrow> 'el list \<Rightarrow> 'el list \<times> error option" where
  "js_forEach f v acc = (case v of JArr xs \<Rightarrow> for_each f xs acc | _ \<Rightarrow> (acc, Some TypeError))"

definition loadProducts_render :: "js_object \<Rightarrow> product_el list \<times> error option" where
  "loadProducts_render res =
     js_forEach render_product (js_or (obj_get res (js ''products'')) (JArr [])) []"

definition loadCart_request :: "js_string \<times> fetch_opts" where
  "loadCart_request = (request_url (js ''/cart''), request_opts GET NoData)"

record line_el =
  ln_name :: jv
  ln_quantity :: jv
  ln_subtotal :: jv

definition render_line :: "jv \<Rightarrow> error + line_el" where
  "render_line i =
     bindE (get_prop i (js ''product'')) (\<lambda>p.
     bindE (get_prop p (js ''name'')) (\<lambda>name.
       Inr \<lparr>ln_name = name,
            ln_quantity = own_get i (js ''quantity''),
            ln_subtotal = own_get i (js ''subtotal'')\<rparr>))"

text \<open>
  The cart region: its lines, and the total line, which is empty (\<open>None\<close>) or the
  constant label around one interpolated value.
\<close>

record cart_view =
  cartItems :: "line_el list"
  cartTotal :: "jv option"

definition loadCart_render :: "js_object \<Rightarrow> cart_view \<times> error option" where
  "loadCart_render res =
     (case js_forEach render_line (js_or (obj_get res (js ''items'')) (JArr [])) [] of
        (els, Some e) \<Rightarrow> (\<lparr>cartItems = els, cartTotal = None\<rparr>, Some e)
      | (els, None) \<Rightarrow>
          (\<lparr>cartItems = els, cartTotal = Some (js_or (obj_get res (js ''total'')) (JNum 0))\<rparr>,
           None))"





section \<open>NotesController: dashboard.js\<close>

subsection \<open>loadNotes\<close>

definition loadNotes_request :: "js_string \<Rightarrow> error + js_string \<times> fetch_opts" where
  "loadNotes_request q =
     bindE (query_suffix q) (\<lambda>s. Inr (request_url (js ''/notes'' @ s), request_opts GET NoData))"

text \<open>
  The comparison \<open>v > r\<close> with a number on the right. \<open>ToNumber\<close> of a string, an array
  or an object reads numerals and prints numbers; it is the parameter \<open>to_number\<close>
  (\<open>None\<close> for \<open>NaN\<close>), and everything below holds whatever it is.
\<close>

definition js_gt :: "(jv \<Rightarrow> rat option) \<Rightarrow> jv \<Rightarrow> rat \<Rightarrow> bool" where
  "js_gt to_number v r =
     (case v of
        JNum x \<Rightarrow> r < x
      | JUndefined \<Rightarrow> False
      | JNull \<Rightarrow> r < 0
      | JBool b \<Rightarrow> r < (if b then 1 else 0)
      | _ \<Rightarrow> (case to_number v of None \<Rightarrow> False | Some x \<Rightarrow> r < x))"

text \<open>\<open>v.substring(0, n)\<close>: only a string has the method.\<close>

definition substring_0 :: "jv \<Rightarrow> nat \<Rightarrow> error + js_string" where
  "substring_0 v n = (case v of JStr s \<Rightarrow> Inr (take n s) | _ \<Rightarrow> Inl TypeError)"

text \<open>Line 40, with \<open>n.content\<close> already read.\<close>

definition note_preview :: "(jv \<Rightarrow> rat option) \<Rightarrow> jv \<Rightarrow> error + jv" where
  "note_preview to_number content =
     bindE (get_prop content (js ''length'')) (\<lambda>len.
       if js_gt to_number len 150
       then bindE (substring_0 content 150) (\<lambda>t. Inr (JStr (t @ js ''...'')))
       else Inr content)"

text \<open>
  A note card: the values its template interpolates. The date is the empty string
  (\<open>None\<close>) or the localised date of the value read.
\<close>

record note_card =
  card_title :: jv
  card_preview :: jv
  card_date :: "jv option"
  card_id :: jv

definition render_note :: "(jv \<Rightarrow> rat option) \<Rightarrow> jv \<Rightarrow> error + note_card" where
  "render_note to_number n =
     bindE (get_prop n (js ''content'')) (\<lambda>content.
     bindE (note_preview to_number content) (\<lambda>preview.
       Inr \<lparr>card_title = own_get n (js ''title''),
            card_preview = preview,
            card_date = (if truthy (own_get n (js ''updated_at''))
                         then Some (own_get n (js ''updated_at'')) else None),
            card_id = own_get n (js ''id'')\<rparr>))"

datatype notes_view = Placeholder | Cards "note_card list"

definition loadNotes_render :: "(jv \<Rightarrow> rat option) \<Rightarrow> js_object \<Rightarrow> notes_view \<times> error option" where
  "loadNotes_render to_number res =
     (let notes = obj_get res (js ''notes'')
      in if \<not> truthy notes \<or> own_get notes (js ''length'') = JNum 0 then (Placeholder, None)
         else (case js_forEach (render_note to_number) (js_or notes (JArr [])) [] of
                 (cs, e) \<Rightarrow> (Cards cs, e)))"

subsection \<open>The editor\<close>

definition title_new :: js_string where
  "title_new =
     [0x41D, 0x43E, 0x432, 0x430, 0x44F, 0x20, 0x437, 0x430, 0x43C, 0x435, 0x442, 0x43A, 0x430]"

definition title_edit :: js_string where
  "title_edit =
     [0x420, 0x435, 0x434, 0x430, 0x43A, 0x442, 0x438, 0x440, 0x43E, 0x432, 0x430, 0x442, 0x44C,
      0x20, 0x437, 0x430, 0x43C, 0x435, 0x442, 0x43A, 0x443]"

definition msg_note_updated :: js_string where
  "msg_note_updated =
     [0x417, 0x430, 0x43C, 0x435, 0x442, 0x43A, 0x430, 0x20, 0x43E, 0x431, 0x43D, 0x43E, 0x432,
      0x43B, 0x435, 0x43D, 0x430]"

definition msg_note_created :: js_string where
  "msg_note_created =
     [0x417, 0x430, 0x43C, 0x435, 0x442, 0x43A, 0x430, 0x20, 0x441, 0x43E, 0x437, 0x434, 0x430,
      0x43D, 0x430]"

definition msg_note_deleted :: js_string where
  "msg_note_deleted =
     [0x417, 0x430, 0x43C, 0x435, 0x442, 0x43A, 0x430, 0x20, 0x443, 0x434, 0x430, 0x43B, 0x435,
      0x43D, 0x430]"

text \<open>
  A control of the form holds its default from the document (where \<open>reset()\<close> puts it
  back), or the text made of the last value assigned or typed.
\<close>

datatype field = Default | Assigned jv

record note_form =
  fld_title :: field
  fld_content :: field
  fld_tags :: field

definition form_reset :: note_form where
  "form_reset = \<lparr>fld_title = Default, fld_content = Default, fld_tags = Default\<rparr>"

text \<open>
  The state of the controller: the variable \<open>editingId\<close>, the two classes of the modal
  that the code touches, the callbacks it has handed to \<open>setTimeout\<close> that have not run
  yet, the heading of the editor, the form and the search box. No callback is ever
  cancelled, and the two kinds of callback each do the same thing every time, so a
  count of each is all there is to know about them.
\<close>

record notes_state =
  editingId :: jv
  cls_hidden :: bool
  cls_show :: bool
  pending_show :: nat
  pending_hide :: nat
  editorTitle :: js_string
  noteForm :: note_form
  search_value :: js_string

text \<open>
  Lines 13 to 18: the heading, \<open>classList.remove('hidden')\<close>, and the callback that adds
  \<open>show\<close> 10 ms later (the focus is not part of the state).
\<close>

definition openModal :: "js_string \<Rightarrow> notes_state \<Rightarrow> notes_state" where
  "openModal title s =
     s\<lparr>editorTitle := title, cls_hidden := False, pending_show := Suc (pending_show s)\<rparr>"

text \<open>
  Lines 20 to 25: \<open>classList.remove('show')\<close>, the callback that adds \<open>hidden\<close> 300 ms
  later, \<open>editingId = null\<close> and \<open>noteForm.reset()\<close>.
\<close>

definition closeModalFn :: "notes_state \<Rightarrow> notes_state" where
  "closeModalFn s =
     s\<lparr>cls_show := False, pending_hide := Suc (pending_hide s), editingId := JNull,
       noteForm := form_reset\<rparr>"

text \<open>The two callbacks, when they run.\<close>

definition show_timer :: "notes_state \<Rightarrow> notes_state" where
  "show_timer s =
     (if 0 < pending_show s then s\<lparr>cls_show := True, pending_show := pending_show s - 1\<rparr> else s)"

definition hide_timer :: "notes_state \<Rightarrow> notes_state" where
  "hide_timer s =
     (if 0 < pending_hide s then s\<lparr>cls_hidden := True, pending_hide := pending_hide s - 1\<rparr> else s)"

definition newNote_click :: "notes_state \<Rightarrow> notes_state" where
  "newNote_click s = openModal title_new (s\<lparr>editingId := JNull, noteForm := form_reset\<rparr>)"

text \<open>
  The submit handler up to its \<open>await\<close> reads the form and picks the request,
  \<open>PUT /notes/<editingId>\<close> or \<open>POST /notes\<close>; it changes nothing. From the \<open>await\<close>
  on, both branches do the same but for the message.
\<close>

datatype submit_kind = Update | Create

definition submit_begin :: "notes_state \<Rightarrow> submit_kind" where
  "submit_begin s = (if truthy (editingId s) then Update else Create)"

definition submit_done :: "submit_kind \<Rightarrow> js_object \<Rightarrow> notes_state \<Rightarrow> notes_state \<times> effect list" where
  "submit_done k res s =
     (if truthy (obj_get res (js ''ok''))
      then (closeModalFn s,
            [Toast (JStr (case k of Update \<Rightarrow> msg_note_updated | Create \<Rightarrow> msg_note_created)),
             LoadNotes (search_value s)])
      else (s, []))"

text \<open>
  The edit branch of the click handler, from its \<open>await\<close> on: \<open>id\<close> is
  \<open>e.target.dataset.id\<close> (a string, or \<open>undefined\<close>) and \<open>all\<close> the Result of
  \<open>GET /notes\<close>. The loose equality \<open>x.id == id\<close> converts between strings and
  numbers; it is the parameter \<open>leq\<close>, and everything below holds whatever it is.
\<close>

fun js_find :: "(jv \<Rightarrow> error + bool) \<Rightarrow> jv list \<Rightarrow> error + jv" where
  "js_find p [] = Inr JUndefined"
| "js_find p (x # xs) = bindE (p x) (\<lambda>b. if b then Inr x else js_find p xs)"

definition id_matches :: "(jv \<Rightarrow> jv \<Rightarrow> bool) \<Rightarrow> jv \<Rightarrow> jv \<Rightarrow> error + bool" where
  "id_matches leq cid x = bindE (get_prop x (js ''id'')) (\<lambda>v. Inr (leq v cid))"

definition fetched_notes :: "js_object \<Rightarrow> jv" where
  "fetched_notes all = js_or (obj_get all (js ''notes'')) (JArr [])"

definition find_note :: "(jv \<Rightarrow> jv \<Rightarrow> bool) \<Rightarrow> jv \<Rightarrow> js_object \<Rightarrow> error + jv" where
  "find_note leq cid all =
     (case fetched_notes all of JArr xs \<Rightarrow> js_find (id_matches leq cid) xs | _ \<Rightarrow> Inl TypeError)"

text \<open>
  Assigning to \<open>.value\<close> of a control converts the value to a string first. The
  conversion throws a \<open>TypeError\<close> on an object that has a property \<open>toString\<close> of its
  own (a JSON value, so not callable, and \<open>valueOf\<close> returns the object), and on an
  array with such an element, since \<open>join\<close> converts every element but \<open>null\<close> and
  \<open>undefined\<close>.
\<close>

fun stringifiable :: "jv \<Rightarrow> bool" where
  "stringifiable (JObj ps) = (map_of ps (js ''toString'') = None)"
| "stringifiable (JArr xs) = (\<forall>x\<in>set xs. nullish x \<or> stringifiable x)"
| "stringifiable v = True"

text \<open>
  Lines 87 to 94: the state the handler leaves, and the exception that ended it if one
  did. \<open>editingId\<close> is assigned first (line 89); each of the three assignments that
  follow can throw, and then the modal is not opened.
\<close>

definition edit_done ::
  "(jv \<Rightarrow> jv \<Rightarrow> bool) \<Rightarrow> jv \<Rightarrow> js_object \<Rightarrow> notes_state \<Rightarrow> notes_state \<times> error option" where
  "edit_done leq cid all s =
     (case find_note leq cid all of
        Inl e \<Rightarrow> (s, Some e)
      | Inr note \<Rightarrow>
          if truthy note then
            (let s1 = s\<lparr>editingId := cid\<rparr>;
                 title = own_get note (js ''title'');
                 content = own_get note (js ''content'');
                 tags = js_or (own_get note (js ''tags'')) (JStr [])
             in if \<not> stringifiable title then (s1, Some TypeError)
                else
                  (let s2 = s1\<lparr>noteForm := (noteForm s1)\<lparr>fld_title := Assigned title\<rparr>\<rparr>
                   in if \<not> stringifiable content then (s2, Some TypeError)
                      else
                        (let s3 = s2\<lparr>noteForm := (noteForm s2)\<lparr>fld_content := Assigned content\<rparr>\<rparr>
                         in if \<not> stringifiable tags then (s3, Some TypeError)
                            else
                              (openModal title_edit
                                 (s3\<lparr>noteForm := (noteForm s3)\<lparr>fld_tags := Assigned tags\<rparr>\<rparr>),
                               None))))
          else (s, None))"

text \<open>The delete branch, from its \<open>await\<close> on (the user has confirmed).\<close>

definition delete_done :: "js_object \<Rightarrow> notes_state \<Rightarrow> notes_state \<times> effect list" where
  "delete_done res s =
     (if truthy (obj_get res (js ''ok''))
      then (s, [Toast (JStr msg_note_deleted), LoadNotes (search_value s)])
      else (s, []))"

text \<open>
  The tasks that touch the state, one event each: a click on a button or on the overlay,
  the arrival of a Result at a handler that awaited it, a callback of \<open>setTimeout\<close>
  running, and the user typing. Tasks run one at a time, so a run of the controller is a
  list of events. A handler that throws leaves the state as it is at the throw. The
  model has no clock: a pending callback may run at any later point of a run, which
  covers every order the browser can produce.
\<close>

datatype form_field = TitleField | ContentField | TagsField

datatype event =
    NewNoteClick
  | CloseClick
  | CancelClick
  | OverlayClick
  | SubmitDone submit_kind js_object
  | EditDone jv js_object
  | DeleteDone js_object
  | SearchInput js_string
  | UserTyped form_field js_string
  | ShowTimer
  | HideTimer

definition typed :: "form_field \<Rightarrow> js_string \<Rightarrow> note_form \<Rightarrow> note_form" where
  "typed f v fm =
     (case f of
        TitleField \<Rightarrow> fm\<lparr>fld_title := Assigned (JStr v)\<rparr>
      | ContentField \<Rightarrow> fm\<lparr>fld_content := Assigned (JStr v)\<rparr>
      | TagsField \<Rightarrow> fm\<lparr>fld_tags := Assigned (JStr v)\<rparr>)"

fun handle :: "(jv \<Rightarrow> jv \<Rightarrow> bool) \<Rightarrow> notes_state \<Rightarrow> event \<Rightarrow> notes_state \<times> effect list" where
  "handle leq s NewNoteClick = (newNote_click s, [])"
| "handle leq s CloseClick = (closeModalFn s, [])"
| "handle leq s CancelClick = (closeModalFn s, [])"
| "handle leq s OverlayClick = (closeModalFn s, [])"
| "handle leq s (SubmitDone k res) = submit_done k res s"
| "handle leq s (EditDone cid all) = (fst (edit_done leq cid all s), [])"
| "handle leq s (DeleteDone res) = delete_done res s"
| "handle leq s (SearchInput v) = (s\<lparr>search_value := v\<rparr>, [LoadNotes v])"
| "handle leq s (UserTyped f v) = (s\<lparr>noteForm := typed f v (noteForm s)\<rparr>, [])"
| "handle leq s ShowTimer = (show_timer s, [])"
| "handle leq s HideTimer = (hide_timer s, [])"

definition step :: "(jv \<Rightarrow> jv \<Rightarrow> bool) \<Rightarrow> notes_state \<Rightarrow> event \<Rightarrow> notes_state" where
  "step leq s e = fst (handle leq s e)"

definition run :: "(jv \<Rightarrow> jv \<Rightarrow> bool) \<Rightarrow> notes_state \<Rightarrow> event list \<Rightarrow> notes_state" where
  "run leq s evs = foldl (step leq) s evs"

subsection \<open>The editor's state machine, as the specification gives it\<close>






section \<open>Properties\<close>


subsection \<open>Transport\<close>

lemma api_get_fetches:
  "api_get fetch p = request_resolve (fetch (request_url p, request_opts GET NoData))"
  by (simp add: api_get_def request_def)

lemma api_post_fetches:
  "api_post fetch p d = request_resolve (fetch (request_url p, request_opts POST d))"
  by (simp add: api_post_def request_def)

lemma assign_ok_get:
  assumes "assign_ok v b = Inr r"
  shows "obj_get r (js ''ok'') = JBool b" and "k \<noteq> js ''ok'' \<Longrightarrow> obj_get r k = own_get v k"
  using assms by (cases v; auto simp: lookup_def update_conv')+

lemma assign_ok_total: "\<not> nullish v \<Longrightarrow> \<exists>r. assign_ok v b = Inr r"
  by (cases v) (simp_all add: nullish_def)

lemma request_resolve_Response:
  "request_resolve (Response st body) =
     assign_ok (case body of None \<Rightarrow> JObj [] | Some v \<Rightarrow> v) (response_ok st)"
  by (simp add: request_resolve_def Let_def)

text \<open>
  Claim C1 says that a call whose fetch fails still resolves to a Result with
  \<open>ok: false\<close>. The code awaits \<open>fetch\<close> with no handler (line 10): when the checkout
  request finds the network down, \<open>request\<close> ends with the rejection of \<open>fetch\<close> and
  returns no Result.
\<close>

theorem request_network_failure_counterexample:
  "request (\<lambda>rq. NetworkError) (js ''/checkout'') POST NoData = Inl FetchFailed"
  by (simp add: request_def request_resolve_def)

text \<open>
  Claim C1, amended: a call of \<open>request\<close> whose fetch fails rejects with that failure,
  whatever the path, the method and the data. It returns no Result, and the rejection
  goes to the caller.
\<close>

theorem request_network_failure:
  assumes "fetch (request_url path, request_opts m d) = NetworkError"
  shows "request fetch path m d = Inl FetchFailed"
  using assms by (simp add: request_def request_resolve_def)

theorem request_network_failure_witness:
  "request (\<lambda>rq. NetworkError) (js ''/cart'') GET NoData = Inl FetchFailed"
  using request_network_failure [of "\<lambda>rq. NetworkError" "js ''/cart''" GET NoData]
  by simp

text \<open>
  Claim C2: for a response with status \<open>st\<close>, every Result that \<open>request\<close> returns has
  \<open>ok\<close> equal to whether \<open>st\<close> lies in 200..299, whatever \<open>ok\<close> the payload carried, and
  reads every other property as the payload does (the payload being the empty object
  when the body is not JSON). A Result is returned for every body but the JSON literal
  \<open>null\<close>, on which \<open>Object.assign\<close> throws.
\<close>

theorem request_ok_tag:
  assumes "fetch (request_url path, request_opts m d) = Response st body"
  shows "(body \<noteq> Some JNull \<and> body \<noteq> Some JUndefined \<longrightarrow> (\<exists>r. request fetch path m d = Inr r))
       \<and> (\<forall>r. request fetch path m d = Inr r \<longrightarrow>
            obj_get r (js ''ok'') = JBool (response_ok st)
          \<and> (\<forall>k. k \<noteq> js ''ok'' \<longrightarrow>
                obj_get r k = own_get (case body of None \<Rightarrow> JObj [] | Some v \<Rightarrow> v) k))"
proof -
  let ?json = "case body of None \<Rightarrow> JObj [] | Some v \<Rightarrow> v"
  have eq: "request fetch path m d = assign_ok ?json (response_ok st)"
    using assms by (simp add: request_def request_resolve_Response)
  have "body \<noteq> Some JNull \<and> body \<noteq> Some JUndefined \<Longrightarrow> \<not> nullish ?json"
    by (cases body) (auto simp: nullish_def)
  then show ?thesis
    using eq assign_ok_total [of ?json "response_ok st"] assign_ok_get [of ?json "response_ok st"]
    by auto
qed

theorem request_ok_tag_witness:
  "request (\<lambda>rq. Response 404 (Some (JObj [(js ''ok'', JBool True), (js ''error'', JStr (js ''gone''))])))
     (js ''/notes/7'') DELETE NoData
   = Inr (Plain [(js ''ok'', JBool False), (js ''error'', JStr (js ''gone''))])
   \<and> obj_get (Plain [(js ''ok'', JBool False), (js ''error'', JStr (js ''gone''))]) (js ''ok'') = JBool False
   \<and> obj_get (Plain [(js ''ok'', JBool False), (js ''error'', JStr (js ''gone''))]) (js ''error'') = JStr (js ''gone'')"
  using request_ok_tag [of "\<lambda>rq. Response 404 (Some (JObj [(js ''ok'', JBool True), (js ''error'', JStr (js ''gone''))]))"
      "js ''/notes/7''" DELETE NoData 404 "Some (JObj [(js ''ok'', JBool True), (js ''error'', JStr (js ''gone''))])"]
  by (simp add: request_def request_resolve_def response_ok_def lookup_def js_def)

text \<open>
  Claim C3: when the body of the response is not JSON, \<open>request\<close> does not throw; it
  returns the empty object tagged with the transport's \<open>ok\<close>.
\<close>

theorem request_malformed_json:
  assumes "fetch (request_url path, request_opts m d) = Response st None"
  shows "request fetch path m d = Inr (Plain [(js ''ok'', JBool (response_ok st))])"
  using assms by (simp add: request_def request_resolve_Response)

theorem request_malformed_json_witness:
  "request (\<lambda>rq. Response 502 None) (js ''/cart'') GET NoData = Inr (Plain [(js ''ok'', JBool False)])
   \<and> obj_get (Plain [(js ''ok'', JBool False)]) (js ''ok'') = JBool False"
  using request_malformed_json [of "\<lambda>rq. Response 502 None" "js ''/cart''" GET NoData 502]
  by (simp add: response_ok_def lookup_def)

subsection \<open>CatalogController\<close>



text \<open>
  Claim C9: on a Result that lacks the list the loader reads, no loader throws and each
  renders its empty view: \<open>loadProducts\<close> no product, \<open>loadCart\<close> no line and the total
  0, \<open>loadNotes\<close> the placeholder.
\<close>

theorem loaders_absent_list:
  "(obj_get res (js ''products'') = JUndefined \<longrightarrow> loadProducts_render res = ([], None))
   \<and> (obj_get res (js ''items'') = JUndefined \<and> obj_get res (js ''total'') = JUndefined \<longrightarrow>
        loadCart_render res = (\<lparr>cartItems = [], cartTotal = Some (JNum 0)\<rparr>, None))
   \<and> (obj_get res (js ''notes'') = JUndefined \<longrightarrow>
        loadNotes_render to_number res = (Placeholder, None))"
  by (simp add: loadProducts_render_def loadCart_render_def loadNotes_render_def js_forEach_def js_or_def)

theorem loaders_absent_list_witness:
  "loadProducts_render (Plain [(js ''ok'', JBool False)]) = ([], None)
   \<and> loadCart_render (Plain [(js ''ok'', JBool False)]) = (\<lparr>cartItems = [], cartTotal = Some (JNum 0)\<rparr>, None)
   \<and> loadNotes_render (\<lambda>v. None) (Plain [(js ''ok'', JBool False)]) = (Placeholder, None)"
  using loaders_absent_list [of "Plain [(js ''ok'', JBool False)]" "\<lambda>v. None"]
  by (simp add: lookup_def js_def)

text \<open>
  Claim C7 says that every non-empty query is sent URL-encoded. The built-in throws on
  a query with an unpaired surrogate, and then no request is made.
\<close>

theorem search_request_lone_surrogate:
  "loadProducts_request [0xD800] = Inl URIError \<and> loadNotes_request [0xD800] = Inl URIError"
  by (simp add: loadProducts_request_def loadNotes_request_def query_suffix_def bindE_def
      unreserved_def is_lead_def)

lemma unreserved_not_surrogate: "unreserved c \<Longrightarrow> \<not> is_lead c \<and> \<not> is_trail c"
  by (auto simp: unreserved_def is_lead_def is_trail_def word_le_nat_alt)

lemma encode_unreserved: "list_all unreserved q \<Longrightarrow> encodeURIComponent q = Inr q"
  by (induction q rule: encodeURIComponent.induct) (simp_all add: bindE_def)

lemma encode_well_formed: "well_formed q \<Longrightarrow> \<exists>e. encodeURIComponent q = Inr e"
proof (induction q rule: encodeURIComponent.induct)
  case 1
  then show ?case by simp
next
  case (2 c)
  then show ?case by simp
next
  case (3 c d ds)
  then show ?case
    using unreserved_not_surrogate [of c]
    by (auto simp: bindE_def split: if_splits)
qed

lemma encode_ill_formed: "\<not> well_formed q \<Longrightarrow> encodeURIComponent q = Inl URIError"
proof (induction q rule: encodeURIComponent.induct)
  case 1
  then show ?case by simp
next
  case (2 c)
  then show ?case using unreserved_not_surrogate [of c] by auto
next
  case (3 c d ds)
  then show ?case
    using unreserved_not_surrogate [of c]
    by (auto simp: bindE_def split: if_splits)
qed

text \<open>
  Claim C7, amended: for every non-empty query \<open>q\<close> without an unpaired surrogate,
  \<open>loadProducts(q)\<close> requests \<open>GET /api/products?q=e\<close> and \<open>loadNotes(q)\<close> requests
  \<open>GET /api/notes?q=e\<close>, where \<open>e\<close> is \<open>encodeURIComponent(q)\<close>; and \<open>e\<close> is \<open>q\<close> itself
  when \<open>q\<close> has unreserved characters only.
\<close>

theorem search_request_encoded:
  assumes "q \<noteq> []" and "well_formed q"
  shows "\<exists>e. encodeURIComponent q = Inr e
           \<and> loadProducts_request q =
               Inr (js ''/api/products?q='' @ e,
                    \<lparr>opt_method = GET, opt_headers = [(js ''Accept'', js ''application/json'')],
                     opt_body = None\<rparr>)
           \<and> loadNotes_request q =
               Inr (js ''/api/notes?q='' @ e,
                    \<lparr>opt_method = GET, opt_headers = [(js ''Accept'', js ''application/json'')],
                     opt_body = None\<rparr>)
           \<and> (list_all unreserved q \<longrightarrow> e = q)"
proof -
  from encode_well_formed [OF assms(2)] obtain e where e: "encodeURIComponent q = Inr e" by blast
  have "list_all unreserved q \<longrightarrow> e = q"
    using e encode_unreserved [of q] by auto
  with e assms(1) show ?thesis
    by (simp add: loadProducts_request_def loadNotes_request_def query_suffix_def bindE_def
        request_url_def request_opts_def js_def)
qed

theorem search_request_encoded_witness:
  "js ''abc'' \<noteq> [] \<and> well_formed (js ''abc'') \<and> js ''a b'' \<noteq> [] \<and> well_formed (js ''a b'')
   \<and> loadProducts_request (js ''abc'') =
     Inr (js ''/api/products?q=abc'',
          \<lparr>opt_method = GET, opt_headers = [(js ''Accept'', js ''application/json'')], opt_body = None\<rparr>)
   \<and> loadNotes_request (js ''abc'') =
     Inr (js ''/api/notes?q=abc'',
          \<lparr>opt_method = GET, opt_headers = [(js ''Accept'', js ''application/json'')], opt_body = None\<rparr>)
   \<and> loadNotes_request (js ''a b'') =
     Inr (js ''/api/notes?q=a%20b'',
          \<lparr>opt_method = GET, opt_headers = [(js ''Accept'', js ''application/json'')], opt_body = None\<rparr>)"
proof -
  have wf: "js ''abc'' \<noteq> []" "well_formed (js ''abc'')" "list_all unreserved (js ''abc'')"
    "js ''a b'' \<noteq> []" "well_formed (js ''a b'')"
    by (simp_all add: js_def is_lead_def is_trail_def unreserved_def)
  have enc: "encodeURIComponent (js ''a b'') = Inr (js ''a%20b'')"
    by (simp add: js_def unreserved_def is_lead_def is_trail_def bindE_def escape_def utf8_def
        percent_def hex_digit_def)
  from search_request_encoded [OF wf(1) wf(2)] search_request_encoded [OF wf(4) wf(5)] wf(3) enc
  have "loadProducts_request (js ''abc'') =
     Inr (js ''/api/products?q=abc'',
          \<lparr>opt_method = GET, opt_headers = [(js ''Accept'', js ''application/json'')], opt_body = None\<rparr>)
   \<and> loadNotes_request (js ''abc'') =
     Inr (js ''/api/notes?q=abc'',
          \<lparr>opt_method = GET, opt_headers = [(js ''Accept'', js ''application/json'')], opt_body = None\<rparr>)
   \<and> loadNotes_request (js ''a b'') =
     Inr (js ''/api/notes?q=a%20b'',
          \<lparr>opt_method = GET, opt_headers = [(js ''Accept'', js ''application/json'')], opt_body = None\<rparr>)"
    by (auto simp: js_def)
  with wf show ?thesis by blast
qed

subsection \<open>NotesController\<close>

lemma for_each_nth:
  assumes "for_each f xs acc = (cs, e)"
  shows "length acc \<le> length cs \<and> length cs \<le> length acc + length xs \<and> take (length acc) cs = acc
       \<and> (\<forall>i < length cs - length acc. f (xs ! i) = Inr (cs ! (length acc + i)))"
  using assms
proof (induction xs arbitrary: acc)
  case Nil
  then show ?case by simp
next
  case (Cons x xs)
  show ?case
  proof (cases "f x")
    case (Inl err)
    with Cons.prems show ?thesis by simp
  next
    case (Inr el)
    with Cons.prems have run: "for_each f xs (acc @ [el]) = (cs, e)" by simp
    note ih = Cons.IH [OF run]
    from ih have len: "Suc (length acc) \<le> length cs" "length cs \<le> Suc (length acc) + length xs"
      and tk: "take (Suc (length acc)) cs = acc @ [el]"
      and nth: "\<And>i. i < length cs - Suc (length acc) \<Longrightarrow> f (xs ! i) = Inr (cs ! (Suc (length acc) + i))"
      by simp_all
    from tk have tk': "take (length acc) cs = acc"
      by (metis append_eq_conv_conj take_take min.idem length_append_singleton butlast_snoc butlast_take diff_Suc_1 len(1))
    from tk len have el: "cs ! length acc = el"
      by (metis lessI nth_append_length nth_take)
    have "f ((x # xs) ! i) = Inr (cs ! (length acc + i))" if "i < length cs - length acc" for i
    proof (cases i)
      case 0
      with Inr el show ?thesis by simp
    next
      case (Suc j)
      with that nth [of j] show ?thesis by simp
    qed
    with len tk' show ?thesis by simp
  qed
qed

lemma note_preview_cases:
  assumes "note_preview to_number content = Inr p"
  shows "p = (case content of
                JStr s \<Rightarrow> if 150 < length s then JStr (take 150 s @ js ''...'') else JStr s
              | c \<Rightarrow> c)"
  using assms
  by (cases content)
     (auto simp: note_preview_def get_prop_def nullish_def bindE_def js_gt_def substring_0_def
           split: if_splits)

lemma render_note_preview:
  assumes "render_note to_number n = Inr c"
  shows "\<exists>content. get_prop n (js ''content'') = Inr content
           \<and> note_preview to_number content = Inr (card_preview c)"
  using assms by (auto simp: render_note_def bindE_def split: sum.splits)

text \<open>
  Claim C6: the preview of every card that \<open>loadNotes\<close> renders is the first 150 code
  units of the content of its note followed by three dots when the content is a string
  longer than 150, and the content unchanged otherwise.
\<close>

theorem preview_truncation:
  assumes "loadNotes_render to_number res = (Cards cs, e)" and "i < length cs"
  shows "\<exists>ns content. obj_get res (js ''notes'') = JArr ns \<and> i < length ns
           \<and> get_prop (ns ! i) (js ''content'') = Inr content
           \<and> card_preview (cs ! i) =
               (case content of
                  JStr s \<Rightarrow> if 150 < length s then JStr (take 150 s @ js ''...'') else JStr s
                | c \<Rightarrow> c)"
proof -
  let ?notes = "obj_get res (js ''notes'')"
  from assms(1) have tr: "truthy ?notes"
    and fe: "js_forEach (render_note to_number) ?notes [] = (cs, e)"
    by (auto simp: loadNotes_render_def Let_def js_or_def split: if_splits prod.splits)
  from fe assms(2) obtain ns where ns: "?notes = JArr ns"
    and run: "for_each (render_note to_number) ns [] = (cs, e)"
    by (cases ?notes) (auto simp: js_forEach_def)
  from for_each_nth [OF run] assms(2)
  have len: "i < length ns" and card: "render_note to_number (ns ! i) = Inr (cs ! i)"
    by auto
  from render_note_preview [OF card]
  obtain content where c: "get_prop (ns ! i) (js ''content'') = Inr content"
    and p: "note_preview to_number content = Inr (card_preview (cs ! i))"
    by auto
  from note_preview_cases [OF p] ns len c show ?thesis by auto
qed

theorem preview_truncation_witness:
  "loadNotes_render (\<lambda>v. None)
     (Plain [(js ''notes'', JArr [JObj [(js ''content'', JStr (replicate 151 0x61))],
                                  JObj [(js ''content'', JStr (js ''short''))]]),
             (js ''ok'', JBool True)])
   = (Cards [\<lparr>card_title = JUndefined, card_preview = JStr (replicate 150 0x61 @ js ''...''),
              card_date = None, card_id = JUndefined\<rparr>,
             \<lparr>card_title = JUndefined, card_preview = JStr (js ''short''),
              card_date = None, card_id = JUndefined\<rparr>], None)
   \<and> (\<exists>ns content.
         obj_get (Plain [(js ''notes'', JArr [JObj [(js ''content'', JStr (replicate 151 0x61))],
                                              JObj [(js ''content'', JStr (js ''short''))]]),
                         (js ''ok'', JBool True)]) (js ''notes'') = JArr ns
         \<and> 0 < length ns \<and> get_prop (ns ! 0) (js ''content'') = Inr content
         \<and> JStr (replicate 150 0x61 @ js ''...'') =
             (case content of
                JStr s \<Rightarrow> if 150 < length s then JStr (take 150 s @ js ''...'') else JStr s
              | c \<Rightarrow> c))"
proof -
  have ev: "loadNotes_render (\<lambda>v. None)
     (Plain [(js ''notes'', JArr [JObj [(js ''content'', JStr (replicate 151 0x61))],
                                  JObj [(js ''content'', JStr (js ''short''))]]),
             (js ''ok'', JBool True)])
   = (Cards [\<lparr>card_title = JUndefined, card_preview = JStr (replicate 150 0x61 @ js ''...''),
              card_date = None, card_id = JUndefined\<rparr>,
             \<lparr>card_title = JUndefined, card_preview = JStr (js ''short''),
              card_date = None, card_id = JUndefined\<rparr>], None)"
    by code_simp
  from preview_truncation [OF ev, of 0] ev show ?thesis by simp
qed







text \<open>
  An edit that throws after line 89: the tags of the note found have no string
  conversion, so \<open>editingId\<close> is set and two controls are filled, and the modal is left
  as it was.
\<close>

lemma edit_done_throws_example:
  "edit_done (\<lambda>a b. a = JNum 7 \<and> b = JStr (js ''7'')) (JStr (js ''7''))
     (Plain [(js ''notes'',
              JArr [JObj [(js ''id'', JNum 7), (js ''tags'', JObj [(js ''toString'', JNum 1)])]]),
             (js ''ok'', JBool True)])
     \<lparr>editingId = JNull, cls_hidden = True, cls_show = False, pending_show = 0, pending_hide = 0,
      editorTitle = [], noteForm = form_reset, search_value = []\<rparr>
   = (\<lparr>editingId = JStr (js ''7''), cls_hidden = True, cls_show = False, pending_show = 0,
       pending_hide = 0, editorTitle = [],
       noteForm = \<lparr>fld_title = Assigned JUndefined, fld_content = Assigned JUndefined,
                   fld_tags = Default\<rparr>,
       search_value = []\<rparr>, Some TypeError)"
  by code_simp










text \<open>
  Claim C5: the close button, the cancel button, a click on the overlay and a submit
  whose Result has \<open>ok\<close> true each set \<open>editingId\<close> to \<open>null\<close> and reset the form, from
  any state, while they take the class \<open>show\<close> off the modal and leave the hide callback
  pending; and every step that takes the class \<open>show\<close> off the modal, or leaves a hide
  callback pending, sets \<open>editingId\<close> to \<open>null\<close> and resets the form.
\<close>

theorem close_clears_edit_session:
  "(e \<in> {CloseClick, CancelClick, OverlayClick}
      \<or> (\<exists>k res. e = SubmitDone k res \<and> truthy (obj_get res (js ''ok''))) \<longrightarrow>
        \<not> cls_show (step leq s e) \<and> pending_hide (step leq s e) = Suc (pending_hide s)
        \<and> editingId (step leq s e) = JNull \<and> noteForm (step leq s e) = form_reset)
   \<and> ((cls_show s \<and> \<not> cls_show (step leq s e)) \<or> pending_hide s < pending_hide (step leq s e) \<longrightarrow>
        editingId (step leq s e) = JNull \<and> noteForm (step leq s e) = form_reset)"
proof -
  have "\<not> cls_show (step leq s e) \<and> pending_hide (step leq s e) = Suc (pending_hide s)
        \<and> editingId (step leq s e) = JNull \<and> noteForm (step leq s e) = form_reset"
    if "e \<in> {CloseClick, CancelClick, OverlayClick}
        \<or> (\<exists>k res. e = SubmitDone k res \<and> truthy (obj_get res (js ''ok'')))"
    using that by (auto simp: step_def closeModalFn_def submit_done_def)
  moreover have "editingId (step leq s e) = JNull \<and> noteForm (step leq s e) = form_reset"
    if "(cls_show s \<and> \<not> cls_show (step leq s e)) \<or> pending_hide s < pending_hide (step leq s e)"
  proof (cases e)
    case (EditDone cid all)
    have "cls_show (fst (edit_done leq cid all s)) = cls_show s
          \<and> pending_hide (fst (edit_done leq cid all s)) = pending_hide s"
      by (simp add: edit_done_def Let_def openModal_def split: sum.splits)
    with that EditDone show ?thesis by (simp add: step_def)
  qed (insert that, auto simp: step_def closeModalFn_def submit_done_def delete_done_def
        newNote_click_def openModal_def show_timer_def hide_timer_def split: if_splits)
  ultimately show ?thesis by blast
qed

theorem close_clears_edit_session_witness:
  "step (=) \<lparr>editingId = JStr (js ''7''), cls_hidden = False, cls_show = True, pending_show = 0,
             pending_hide = 0, editorTitle = title_edit,
             noteForm = \<lparr>fld_title = Assigned (JStr (js ''T'')), fld_content = Default,
                         fld_tags = Default\<rparr>,
             search_value = js ''abc''\<rparr> OverlayClick
     = \<lparr>editingId = JNull, cls_hidden = False, cls_show = False, pending_show = 0,
        pending_hide = Suc 0, editorTitle = title_edit, noteForm = form_reset,
        search_value = js ''abc''\<rparr>
   \<and> step (=) \<lparr>editingId = JStr (js ''7''), cls_hidden = False, cls_show = True, pending_show = 0,
               pending_hide = 0, editorTitle = title_edit,
               noteForm = \<lparr>fld_title = Assigned (JStr (js ''T'')), fld_content = Default,
                           fld_tags = Default\<rparr>,
               search_value = js ''abc''\<rparr> (SubmitDone Update (Plain [(js ''ok'', JBool True)]))
     = \<lparr>editingId = JNull, cls_hidden = False, cls_show = False, pending_show = 0,
        pending_hide = Suc 0, editorTitle = title_edit, noteForm = form_reset,
        search_value = js ''abc''\<rparr>"
  using close_clears_edit_session
          [of OverlayClick "(=)"
              "\<lparr>editingId = JStr (js ''7''), cls_hidden = False, cls_show = True, pending_show = 0,
                pending_hide = 0, editorTitle = title_edit,
                noteForm = \<lparr>fld_title = Assigned (JStr (js ''T'')), fld_content = Default,
                            fld_tags = Default\<rparr>,
                search_value = js ''abc''\<rparr>"]
        close_clears_edit_session
          [of "SubmitDone Update (Plain [(js ''ok'', JBool True)])" "(=)"
              "\<lparr>editingId = JStr (js ''7''), cls_hidden = False, cls_show = True, pending_show = 0,
                pending_hide = 0, editorTitle = title_edit,
                noteForm = \<lparr>fld_title = Assigned (JStr (js ''T'')), fld_content = Default,
                            fld_tags = Default\<rparr>,
                search_value = js ''abc''\<rparr>"]
  by (simp add: step_def closeModalFn_def submit_done_def lookup_def)

lemma js_find_no_match:
  "\<forall>x\<in>set xs. p x \<noteq> Inr True \<Longrightarrow> js_find p xs = Inr JUndefined \<or> (\<exists>err. js_find p xs = Inl err)"
proof (induction xs)
  case Nil
  then show ?case by simp
next
  case (Cons x xs)
  then show ?case by (cases "p x") (auto simp: bindE_def)
qed

text \<open>
  Claim C10: when no note of the fetched list has an id equal to the clicked one, the
  edit handler changes nothing, neither \<open>editingId\<close> nor the form nor the modal, and
  does nothing else.
\<close>

theorem edit_without_match:
  assumes "fetched_notes all = JArr xs"
    and "\<forall>x\<in>set xs. id_matches leq cid x \<noteq> Inr True"
  shows "handle leq s (EditDone cid all) = (s, [])"
proof -
  from assms(1) have "find_note leq cid all = js_find (id_matches leq cid) xs"
    by (simp add: find_note_def)
  with js_find_no_match [OF assms(2)]
  have "find_note leq cid all = Inr JUndefined \<or> (\<exists>err. find_note leq cid all = Inl err)"
    by simp
  then show ?thesis
    by (auto simp: edit_done_def)
qed

theorem edit_without_match_witness:
  "fetched_notes (Plain [(js ''notes'', JArr [JObj [(js ''id'', JNum 7)]]), (js ''ok'', JBool True)])
     = JArr [JObj [(js ''id'', JNum 7)]]
   \<and> id_matches (\<lambda>a b. a = JNum 7 \<and> b = JStr (js ''7'')) (JStr (js ''8'')) (JObj [(js ''id'', JNum 7)])
     = Inr False
   \<and> handle (\<lambda>a b. a = JNum 7 \<and> b = JStr (js ''7''))
        \<lparr>editingId = JNull, cls_hidden = True, cls_show = False, pending_show = 0,
         pending_hide = 0, editorTitle = [], noteForm = form_reset, search_value = []\<rparr>
        (EditDone (JStr (js ''8''))
           (Plain [(js ''notes'', JArr [JObj [(js ''id'', JNum 7)]]), (js ''ok'', JBool True)]))
     = (\<lparr>editingId = JNull, cls_hidden = True, cls_show = False, pending_show = 0,
         pending_hide = 0, editorTitle = [], noteForm = form_reset, search_value = []\<rparr>, [])"
proof -
  have fetched: "fetched_notes (Plain [(js ''notes'', JArr [JObj [(js ''id'', JNum 7)]]), (js ''ok'', JBool True)])
     = JArr [JObj [(js ''id'', JNum 7)]]"
    by (simp add: fetched_notes_def js_or_def lookup_def)
  have no: "id_matches (\<lambda>a b. a = JNum 7 \<and> b = JStr (js ''7'')) (JStr (js ''8'')) (JObj [(js ''id'', JNum 7)])
     = Inr False"
    by (simp add: id_matches_def get_prop_def nullish_def bindE_def lookup_def js_def)
  from no have "\<forall>x\<in>set [JObj [(js ''id'', JNum 7)]].
      id_matches (\<lambda>a b. a = JNum 7 \<and> b = JStr (js ''7'')) (JStr (js ''8'')) x \<noteq> Inr True"
    by simp
  from edit_without_match [OF fetched this] fetched no show ?thesis by simp
qed

end
